theory Spec2Isabelle
  imports Main "HOL-Library.AList"
begin

section \<open>Data model\<close>

text \<open>
  The network controller of \<^verbatim>\<open>packages/network-controller/src/NetworkController.ts\<close>,
  and the registry of network configurations of its revision in \<^verbatim>\<open>src/unnamed/part_002\<close>.
  JavaScript's \<^verbatim>\<open>undefined\<close> for an optional field is \<open>None\<close>.
\<close>

record NetworkConfiguration =
  rpcUrl :: string
  chainId :: "string option"
  nickname :: "string option"
  ticker :: "string option"
  rpcPrefs :: "string option"

record ProviderConfig =
  rpcTarget :: "string option"
  type :: string
  chainId :: "string option"
  ticker :: "string option"
  nickname :: "string option"

record Block =
  baseFeePerGas :: "string option"

record NetworkProperties =
  isEIP1559Compatible :: "bool option"

text \<open>
  \<open>networkConfigurations\<close> is a field of the revision in part_002 only (where
  \<open>properties\<close> is called \<open>networkDetails\<close>); no function of NetworkController.ts
  reads or writes it. It is a JavaScript object keyed by strings: an association list
  in the order in which \<^verbatim>\<open>Object.entries\<close> enumerates it.
\<close>

record NetworkState =
  network :: string
  isCustomNetwork :: bool
  providerConfig :: ProviderConfig
  properties :: NetworkProperties
  networkConfigurations :: "(string \<times> NetworkConfiguration) list"

definition LOCALHOST_RPC_URL :: string where
  "LOCALHOST_RPC_URL = ''http://localhost:8545''"

definition MAINNET :: string where
  "MAINNET = ''mainnet''"

definition RPC :: string where
  "RPC = ''rpc''"

text \<open>
  Modelled from the spec: the table \<^verbatim>\<open>NetworksChainId\<close> of the package
  \<^verbatim>\<open>@metamask/controller-utils\<close>, which is not among the sources ("the fixed set of
  recognized well-known chain ids"); the values are those the tests of the controller use.
\<close>

definition NetworksChainId :: "string \<Rightarrow> string option" where
  "NetworksChainId t =
     (if t = ''mainnet'' then Some ''1''
      else if t = ''kovan'' then Some ''42''
      else if t = ''rinkeby'' then Some ''4''
      else if t = ''goerli'' then Some ''5''
      else if t = ''ropsten'' then Some ''3''
      else if t = ''localhost'' then Some ''''
      else if t = ''rpc'' then Some ''''
      else None)"

text \<open>
  Modelled from the spec: the table \<^verbatim>\<open>TESTNET_NETWORK_TYPE_TO_TICKER_SYMBOL\<close> of the
  same package (the "assetSymbol" of a well-known test network), with the values of the tests.
\<close>

definition TESTNET_NETWORK_TYPE_TO_TICKER_SYMBOL :: "string \<Rightarrow> string option" where
  "TESTNET_NETWORK_TYPE_TO_TICKER_SYMBOL t =
     (if t = ''rinkeby'' then Some ''RinkebyETH''
      else if t = ''goerli'' then Some ''GoerliETH''
      else if t = ''ropsten'' then Some ''RopstenETH''
      else if t = ''kovan'' then Some ''KovanETH''
      else None)"

definition defaultState :: NetworkState where
  "defaultState =
     \<lparr> network = ''loading'',
       isCustomNetwork = False,
       providerConfig =
         \<lparr> rpcTarget = None, type = MAINNET, chainId = NetworksChainId ''mainnet'',
           ticker = None, nickname = None \<rparr>,
       properties = \<lparr> isEIP1559Compatible = Some False \<rparr>,
       networkConfigurations = [] \<rparr>"

subsection \<open>Connections\<close>

text \<open>
  Modelled from the spec: \<^verbatim>\<open>createInfuraClient\<close> and \<^verbatim>\<open>createJsonRpcClient\<close> of
  \<^verbatim>\<open>./clients\<close>, which are not among the sources ("Pure construction; no state";
  building a connection fails for an unrecognized kind only). A client is what they are
  called with; the middleware and the block tracker they return are determined by it.
\<close>

datatype client =
    InfuraClient string "string option"
  | JsonRpcClient string "string option"

text \<open>
  A provider made by \<^verbatim>\<open>providerFromEngine\<close> from an engine holding the middleware;
  \<open>errorListeners\<close> counts the listeners that \<^verbatim>\<open>on('error', ...)\<close> has installed on it.
\<close>

record provider =
  networkMiddleware :: client
  errorListeners :: nat

text \<open>
  An \<^verbatim>\<open>EthQuery\<close> object: the connection it sends to, and whether it has a
  \<open>sendAsync\<close> function (the library's object has; the source checks it).
\<close>

record EthQuery =
  currentProvider :: client
  sendAsync :: bool

datatype rpc_method = net_version | eth_getBlockByNumber

text \<open>
  The arguments with which \<open>sendAsync\<close> calls back: an error alone, or no error and
  the result.
\<close>

datatype 'a reply = Err string | Ok 'a

text \<open>How a promise returned to the caller is settled, or that it waits for a reply.\<close>

datatype 'a promise = Resolved 'a | Rejected string | Pending

text \<open>
  The lock of the \<^verbatim>\<open>async-mutex\<close> library: \<^verbatim>\<open>acquire()\<close> joins a first-in
  first-out queue; the lock is handed to the head of the queue when it is free. All
  waiters here are continuations of \<open>lookupNetwork\<close>, so the queue is their number.
\<close>

record Mutex =
  locked :: bool
  queue :: nat

datatype message =
    isStateChange: StateChange NetworkState
  | isProviderConfigChange: ProviderConfigChange ProviderConfig
  | isProviderChange: ProviderChange provider

text \<open>
  The controller object, together with what its environment holds for it: the messages
  published on the messenger, the timers of \<open>safelyStopProvider\<close>, the requests handed
  to \<open>sendAsync\<close>, and the callbacks that still wait for a reply. A callback of
  \<open>getEIP1559Compatibility\<close> is a closure over the \<open>properties\<close> it read when called.
\<close>

record controller =
  state :: NetworkState
  ethQuery :: "EthQuery option"
  infuraProjectId :: "string option"
  mutex :: Mutex
  blockTracker :: "client option"
  provider :: "provider option"
  published :: "message list"
  timers :: "provider option list"
  requests :: "(rpc_method \<times> client) list"
  netVersionCallbacks :: nat
  blockCallbacks :: "NetworkProperties list"

datatype error =
    UnrecognizedNetworkType string
  | ProviderUnset

text \<open>A call returns, or throws; what it changed before it threw stays changed.\<close>

datatype outcome = Returned controller | Threw error controller

fun final :: "outcome \<Rightarrow> controller" where
  "final (Returned c) = c"
| "final (Threw e c) = c"

fun throws :: "outcome \<Rightarrow> bool" where
  "throws (Returned c) = False"
| "throws (Threw e c) = True"

fun andThen :: "outcome \<Rightarrow> (controller \<Rightarrow> outcome) \<Rightarrow> outcome" where
  "andThen (Returned c) f = f c"
| "andThen (Threw e c) f = Threw e c"

section \<open>Operations of NetworkController.ts\<close>

text \<open>
  Modelled from the spec: \<^verbatim>\<open>update\<close> and the messenger's \<^verbatim>\<open>publish\<close> of the package
  \<^verbatim>\<open>@metamask/base-controller\<close>, which is not among the sources: "every mutation
  produces a new Snapshot" and a state-changed notification carrying it.
\<close>

definition publish :: "controller \<Rightarrow> message \<Rightarrow> controller" where
  "publish c m = c\<lparr>published := published c @ [m]\<rparr>"

definition update :: "controller \<Rightarrow> (NetworkState \<Rightarrow> NetworkState) \<Rightarrow> controller" where
  "update c f = publish (c\<lparr>state := f (state c)\<rparr>) (StateChange (f (state c)))"

record NetworkControllerOptions =
  optInfuraProjectId :: "string option"
  optNetwork :: "string option"
  optIsCustomNetwork :: "bool option"
  optProviderConfig :: "ProviderConfig option"
  optProperties :: "NetworkProperties option"

definition orDefault :: "'a option \<Rightarrow> 'a \<Rightarrow> 'a" where
  "orDefault x d = (case x of Some v \<Rightarrow> v | None \<Rightarrow> d)"

definition constructor :: "NetworkControllerOptions \<Rightarrow> controller" where
  "constructor opts =
     \<lparr> state =
         \<lparr> network = orDefault (optNetwork opts) (network defaultState),
           isCustomNetwork = orDefault (optIsCustomNetwork opts) (isCustomNetwork defaultState),
           providerConfig = orDefault (optProviderConfig opts) (providerConfig defaultState),
           properties = orDefault (optProperties opts) (properties defaultState),
           networkConfigurations = networkConfigurations defaultState \<rparr>,
       ethQuery = None,
       infuraProjectId = optInfuraProjectId opts,
       mutex = \<lparr> locked = False, queue = 0 \<rparr>,
       blockTracker = None,
       provider = None,
       published = [],
       timers = [],
       requests = [],
       netVersionCallbacks = 0,
       blockCallbacks = [] \<rparr>"

definition getIsCustomNetwork :: "string option \<Rightarrow> bool" where
  "getIsCustomNetwork cid =
     (cid \<noteq> NetworksChainId ''mainnet'' \<and>
      cid \<noteq> NetworksChainId ''kovan'' \<and>
      cid \<noteq> NetworksChainId ''rinkeby'' \<and>
      cid \<noteq> NetworksChainId ''goerli'' \<and>
      cid \<noteq> NetworksChainId ''ropsten'' \<and>
      cid \<noteq> NetworksChainId ''localhost'')"

definition safelyStopProvider :: "controller \<Rightarrow> provider option \<Rightarrow> controller" where
  "safelyStopProvider c p = c\<lparr>timers := timers c @ [p]\<rparr>"

definition registerProvider :: "controller \<Rightarrow> outcome" where
  "registerProvider c =
     (case provider c of
        None \<Rightarrow> Threw ProviderUnset c
      | Some p \<Rightarrow>
          Returned (c\<lparr> provider := Some (p\<lparr>errorListeners := errorListeners p + 1\<rparr>),
                       ethQuery := Some \<lparr> currentProvider = networkMiddleware p,
                                          sendAsync = True \<rparr> \<rparr>))"

definition updateProvider :: "controller \<Rightarrow> client \<Rightarrow> outcome" where
  "updateProvider c cl =
     (let c1 = safelyStopProvider c (provider c);
          p = \<lparr> networkMiddleware = cl, errorListeners = 0 \<rparr>;
          c2 = c1\<lparr> provider := Some p, blockTracker := Some cl \<rparr>;
          c3 = publish c2 (ProviderChange p)
      in registerProvider c3)"

definition setupInfuraProvider :: "controller \<Rightarrow> string \<Rightarrow> outcome" where
  "setupInfuraProvider c t = updateProvider c (InfuraClient t (infuraProjectId c))"

definition setupStandardProvider :: "controller \<Rightarrow> string \<Rightarrow> string option \<Rightarrow> outcome" where
  "setupStandardProvider c target cid = updateProvider c (JsonRpcClient target cid)"

text \<open>
  \<open>getEIP1559Compatibility\<close> up to the point where it returns its promise. The request
  is handed to \<open>sendAsync\<close> inside the call; its callback runs when the reply comes.
\<close>

definition canSend :: "controller \<Rightarrow> bool" where
  "canSend c = (case ethQuery c of None \<Rightarrow> False | Some q \<Rightarrow> sendAsync q)"

definition send :: "controller \<Rightarrow> rpc_method \<Rightarrow> controller" where
  "send c m =
     (case ethQuery c of
        None \<Rightarrow> c
      | Some q \<Rightarrow> c\<lparr>requests := requests c @ [(m, currentProvider q)]\<rparr>)"

definition getEIP1559Compatibility :: "controller \<Rightarrow> bool promise \<times> controller" where
  "getEIP1559Compatibility c =
     (let props = properties (state c) in
      if isEIP1559Compatible props \<noteq> Some True then
        if \<not> canSend c then (Resolved True, c)
        else (Pending,
              (send c eth_getBlockByNumber)\<lparr>blockCallbacks := blockCallbacks c @ [props]\<rparr>)
      else (Resolved True, c))"

text \<open>The callback of that request, closed over \<open>props\<close>; it settles the promise.\<close>

definition getBlockCallback ::
  "NetworkProperties \<Rightarrow> controller \<Rightarrow> Block reply \<Rightarrow> bool promise \<times> controller" where
  "getBlockCallback props c r =
     (case r of
        Err e \<Rightarrow> (Rejected e, c)
      | Ok block \<Rightarrow>
          (let compatible = (baseFeePerGas block \<noteq> None) in
           (Resolved compatible,
            if isEIP1559Compatible props \<noteq> Some compatible
            then update c (\<lambda>s. s\<lparr>properties :=
                   (properties s)\<lparr>isEIP1559Compatible := Some compatible\<rparr>\<rparr>)
            else c)))"

text \<open>
  In the case \<open>rpc\<close> the source has \<^verbatim>\<open>rpcTarget && this.setupStandardProvider(...)\<close>:
  nothing is set up when the target is undefined or the empty string.
\<close>

definition initializeProvider ::
  "controller \<Rightarrow> string \<Rightarrow> string option \<Rightarrow> string option \<Rightarrow> outcome" where
  "initializeProvider c t target cid =
     (let c1 = update c (\<lambda>s. s\<lparr>isCustomNetwork := getIsCustomNetwork cid\<rparr>);
          probe = (\<lambda>c'. Returned (snd (getEIP1559Compatibility c')))
      in if t = ''kovan'' \<or> t = MAINNET \<or> t = ''rinkeby'' \<or> t = ''goerli'' \<or> t = ''ropsten''
         then andThen (setupInfuraProvider c1 t) probe
         else if t = ''localhost''
         then andThen (setupStandardProvider c1 LOCALHOST_RPC_URL None) probe
         else if t = RPC
         then andThen (case target of
                         None \<Rightarrow> Returned c1
                       | Some url \<Rightarrow>
                           if url = [] then Returned c1
                           else setupStandardProvider c1 url cid) probe
         else Threw (UnrecognizedNetworkType t) c1)"

text \<open>
  \<open>lookupNetwork\<close> up to its \<^verbatim>\<open>await this.mutex.acquire()\<close>: it returns at once
  when there is nothing to send with, and joins the queue of the lock otherwise.
\<close>

definition lookupNetwork :: "controller \<Rightarrow> controller" where
  "lookupNetwork c =
     (if \<not> canSend c then c
      else c\<lparr>mutex := (mutex c)\<lparr>queue := queue (mutex c) + 1\<rparr>\<rparr>)"

text \<open>
  Its continuation once the lock is handed over: the request for the network id is sent.
  Nothing is sent (the call fails inside the promise, holding the lock) if the object
  in \<open>ethQuery\<close> has no \<open>sendAsync\<close> by then.
\<close>

definition lookupNetworkResume :: "controller \<Rightarrow> controller" where
  "lookupNetworkResume c =
     (let c1 = c\<lparr>mutex := (mutex c)\<lparr>locked := True, queue := queue (mutex c) - 1\<rparr>\<rparr>
      in if canSend c1
         then (send c1 net_version)\<lparr>netVersionCallbacks := netVersionCallbacks c1 + 1\<rparr>
         else c1)"

definition releaseLock :: "controller \<Rightarrow> controller" where
  "releaseLock c = c\<lparr>mutex := (mutex c)\<lparr>locked := False\<rparr>\<rparr>"

text \<open>
  The callback of the \<open>net_version\<close> request in NetworkController.ts. With an error
  there is no network id, and \<^verbatim>\<open>this.state.network === network\<close> is false.
\<close>

definition netVersionCallback :: "controller \<Rightarrow> string reply \<Rightarrow> controller" where
  "netVersionCallback c r =
     releaseLock
       (if (case r of Err e \<Rightarrow> False | Ok n \<Rightarrow> network (state c) = n) then c
        else (let c1 = update c (\<lambda>s. s\<lparr>network :=
                         (case r of Err e \<Rightarrow> ''loading'' | Ok n \<Rightarrow> n)\<rparr>)
              in publish c1 (ProviderConfigChange (providerConfig (state c1)))))"

text \<open>
  The same point of the revision in part_002, which awaits \<open>#getNetworkId\<close> inside
  \<^verbatim>\<open>try\<close> \<dots> \<^verbatim>\<open>catch\<close> \<dots> \<^verbatim>\<open>finally\<close>: the rest of \<open>lookupNetwork\<close> once that promise
  is settled.
\<close>

definition lookupNetworkSettled :: "controller \<Rightarrow> string reply \<Rightarrow> controller" where
  "lookupNetworkSettled c r =
     releaseLock
       (case r of
          Ok networkId \<Rightarrow>
            if network (state c) = networkId then c
            else (let c1 = update c (\<lambda>s. s\<lparr>network := networkId\<rparr>)
                  in publish c1 (ProviderConfigChange (providerConfig (state c1))))
        | Err e \<Rightarrow>
            (let c1 = update c (\<lambda>s. s\<lparr>network := ''loading''\<rparr>)
             in publish c1 (ProviderConfigChange (providerConfig (state c1)))))"

text \<open>
  The continuation of that \<open>lookupNetwork\<close> once the lock is handed over. A call that
  cannot send by then is a rejected promise like any other, caught by the \<^verbatim>\<open>catch\<close>.
\<close>

definition lookupNetworkAwait :: "controller \<Rightarrow> controller" where
  "lookupNetworkAwait c =
     (let c1 = c\<lparr>mutex := (mutex c)\<lparr>locked := True, queue := queue (mutex c) - 1\<rparr>\<rparr>
      in if canSend c1
         then (send c1 net_version)\<lparr>netVersionCallbacks := netVersionCallbacks c1 + 1\<rparr>
         else lookupNetworkSettled c1 (Err ''TypeError''))"

definition refreshNetwork :: "controller \<Rightarrow> outcome" where
  "refreshNetwork c =
     (let c1 = update c (\<lambda>s. s\<lparr>network := ''loading'',
                                properties := \<lparr>isEIP1559Compatible = None\<rparr>\<rparr>);
          cfg = providerConfig (state c1)
      in andThen (initializeProvider c1 (type cfg) (rpcTarget cfg) (chainId cfg))
           (\<lambda>c2. Returned (lookupNetwork c2)))"

definition verifyNetwork :: "controller \<Rightarrow> controller" where
  "verifyNetwork c = (if network (state c) = ''loading'' then lookupNetwork c else c)"

text \<open>The setter of \<open>providerConfig\<close>; \<open>cfg\<close> is the value assigned.\<close>

definition set_providerConfig :: "controller \<Rightarrow> ProviderConfig \<Rightarrow> outcome" where
  "set_providerConfig c cfg =
     (let stored = providerConfig (state c)
      in andThen (initializeProvider c (type stored) (rpcTarget stored) (chainId stored))
           (\<lambda>c1. Returned (lookupNetwork c1)))"

definition setProviderType :: "controller \<Rightarrow> string \<Rightarrow> outcome" where
  "setProviderType c t =
     (let tk = (case TESTNET_NETWORK_TYPE_TO_TICKER_SYMBOL t of
                  Some symbol \<Rightarrow> if length symbol > 0 then symbol else ''ETH''
                | None \<Rightarrow> ''ETH'');
          c1 = update c (\<lambda>s. s\<lparr>providerConfig :=
                 (providerConfig s)\<lparr> type := t, ticker := Some tk,
                                     chainId := NetworksChainId t,
                                     rpcTarget := None, nickname := None \<rparr>\<rparr>)
      in refreshNetwork c1)"

definition setRpcTarget ::
  "controller \<Rightarrow> string \<Rightarrow> string \<Rightarrow> string option \<Rightarrow> string option \<Rightarrow> outcome" where
  "setRpcTarget c target cid tk nick =
     (let c1 = update c (\<lambda>s. s\<lparr>providerConfig :=
                 (providerConfig s)\<lparr> type := RPC, rpcTarget := Some target,
                                     chainId := Some cid, ticker := tk,
                                     nickname := nick \<rparr>\<rparr>)
      in refreshNetwork c1)"

section \<open>The controller in its environment\<close>

text \<open>
  Everything runs on one thread: a call from outside runs up to the point where it
  returns; later the lock is handed to a waiting \<open>lookupNetwork\<close>, a reply arrives and
  its callback runs, or the active provider emits \<^verbatim>\<open>'error'\<close> and its listeners run.
  An event that cannot happen in a state has no successor.
\<close>

datatype event =
    CallSetProviderType string
  | CallSetRpcTarget string string "string option" "string option"
  | AssignProviderConfig ProviderConfig
  | CallLookupNetwork
  | CallGetEIP1559Compatibility
  | LockGranted
  | NetVersionReply "string reply"
  | BlockReply nat "Block reply"
  | ProviderError

fun step :: "event \<Rightarrow> controller \<Rightarrow> controller option" where
  "step (CallSetProviderType t) c = Some (final (setProviderType c t))"
| "step (CallSetRpcTarget target cid tk nick) c = Some (final (setRpcTarget c target cid tk nick))"
| "step (AssignProviderConfig cfg) c = Some (final (set_providerConfig c cfg))"
| "step CallLookupNetwork c = Some (lookupNetwork c)"
| "step CallGetEIP1559Compatibility c = Some (snd (getEIP1559Compatibility c))"
| "step LockGranted c =
     (if \<not> locked (mutex c) \<and> 0 < queue (mutex c) then Some (lookupNetworkResume c) else None)"
| "step (NetVersionReply r) c =
     (if 0 < netVersionCallbacks c
      then Some (netVersionCallback (c\<lparr>netVersionCallbacks := netVersionCallbacks c - 1\<rparr>) r)
      else None)"
| "step (BlockReply i r) c =
     (if i < length (blockCallbacks c)
      then Some (snd (getBlockCallback (blockCallbacks c ! i)
                   (c\<lparr>blockCallbacks := take i (blockCallbacks c) @ drop (Suc i) (blockCallbacks c)\<rparr>)
                   r))
      else None)"
| "step ProviderError c =
     (case provider c of
        None \<Rightarrow> None
      | Some p \<Rightarrow> Some ((verifyNetwork ^^ errorListeners p) c))"

fun run :: "event list \<Rightarrow> controller \<Rightarrow> controller option" where
  "run [] c = Some c"
| "run (e # es) c = (case step e c of None \<Rightarrow> None | Some c' \<Rightarrow> run es c')"

text \<open>The same, with the \<open>lookupNetwork\<close> of part_002 in place of that of NetworkController.ts.\<close>

fun stepSettled :: "event \<Rightarrow> controller \<Rightarrow> controller option" where
  "stepSettled LockGranted c =
     (if \<not> locked (mutex c) \<and> 0 < queue (mutex c) then Some (lookupNetworkAwait c) else None)"
| "stepSettled (NetVersionReply r) c =
     (if 0 < netVersionCallbacks c
      then Some (lookupNetworkSettled (c\<lparr>netVersionCallbacks := netVersionCallbacks c - 1\<rparr>) r)
      else None)"
| "stepSettled e c = step e c"

fun runSettled :: "event list \<Rightarrow> controller \<Rightarrow> controller option" where
  "runSettled [] c = Some c"
| "runSettled (e # es) c = (case stepSettled e c of None \<Rightarrow> None | Some c' \<Rightarrow> runSettled es c')"

text \<open>
  A schedule of detection rounds alone: the lock is handed over, a reply arrives.
  \<open>netVersionReplies\<close> are the replies of a schedule in the order of their arrival.
\<close>

fun detectionEvent :: "event \<Rightarrow> bool" where
  "detectionEvent LockGranted = True"
| "detectionEvent (NetVersionReply r) = True"
| "detectionEvent e = False"

fun netVersionReplies :: "event list \<Rightarrow> string reply list" where
  "netVersionReplies [] = []"
| "netVersionReplies (NetVersionReply r # es) = r # netVersionReplies es"
| "netVersionReplies (e # es) = netVersionReplies es"

text \<open>
  What a step may do to the connection: leave \<open>provider\<close> and \<open>ethQuery\<close> alone, or
  replace both as \<open>updateProvider\<close> does.
\<close>

definition rewired :: "controller \<Rightarrow> controller \<Rightarrow> bool" where
  "rewired c c' =
     ((provider c' = provider c \<and> ethQuery c' = ethQuery c) \<or>
      (map_option errorListeners (provider c') = Some 1 \<and>
       map_option sendAsync (ethQuery c') = Some True))"

section \<open>The registry of network configurations (part_002)\<close>






section \<open>What each operation leaves alone\<close>

lemma publish_fields [simp]:
  "state (publish c m) = state c"
  "ethQuery (publish c m) = ethQuery c"
  "infuraProjectId (publish c m) = infuraProjectId c"
  "mutex (publish c m) = mutex c"
  "blockTracker (publish c m) = blockTracker c"
  "provider (publish c m) = provider c"
  "published (publish c m) = published c @ [m]"
  "timers (publish c m) = timers c"
  "requests (publish c m) = requests c"
  "netVersionCallbacks (publish c m) = netVersionCallbacks c"
  "blockCallbacks (publish c m) = blockCallbacks c"
  by (simp_all add: publish_def)

lemma update_fields [simp]:
  "state (update c f) = f (state c)"
  "ethQuery (update c f) = ethQuery c"
  "infuraProjectId (update c f) = infuraProjectId c"
  "mutex (update c f) = mutex c"
  "blockTracker (update c f) = blockTracker c"
  "provider (update c f) = provider c"
  "published (update c f) = published c @ [StateChange (f (state c))]"
  "timers (update c f) = timers c"
  "requests (update c f) = requests c"
  "netVersionCallbacks (update c f) = netVersionCallbacks c"
  "blockCallbacks (update c f) = blockCallbacks c"
  by (simp_all add: update_def)

lemma canSend_publish [simp]: "canSend (publish c m) = canSend c"
  by (simp add: canSend_def)

lemma canSend_update [simp]: "canSend (update c f) = canSend c"
  by (simp add: canSend_def)

lemma send_fields [simp]:
  "state (send c m) = state c"
  "ethQuery (send c m) = ethQuery c"
  "infuraProjectId (send c m) = infuraProjectId c"
  "mutex (send c m) = mutex c"
  "blockTracker (send c m) = blockTracker c"
  "provider (send c m) = provider c"
  "published (send c m) = published c"
  "timers (send c m) = timers c"
  "netVersionCallbacks (send c m) = netVersionCallbacks c"
  "blockCallbacks (send c m) = blockCallbacks c"
  by (simp_all add: send_def split: option.splits)

lemma canSend_send [simp]: "canSend (send c m) = canSend c"
  by (simp add: canSend_def)

lemma releaseLock_fields [simp]:
  "state (releaseLock c) = state c"
  "ethQuery (releaseLock c) = ethQuery c"
  "infuraProjectId (releaseLock c) = infuraProjectId c"
  "blockTracker (releaseLock c) = blockTracker c"
  "provider (releaseLock c) = provider c"
  "published (releaseLock c) = published c"
  "timers (releaseLock c) = timers c"
  "requests (releaseLock c) = requests c"
  "netVersionCallbacks (releaseLock c) = netVersionCallbacks c"
  "blockCallbacks (releaseLock c) = blockCallbacks c"
  "locked (mutex (releaseLock c)) = False"
  "queue (mutex (releaseLock c)) = queue (mutex c)"
  by (simp_all add: releaseLock_def)

lemma canSend_releaseLock [simp]: "canSend (releaseLock c) = canSend c"
  by (simp add: canSend_def)

lemma probe_fields [simp]:
  "state (snd (getEIP1559Compatibility c)) = state c"
  "ethQuery (snd (getEIP1559Compatibility c)) = ethQuery c"
  "infuraProjectId (snd (getEIP1559Compatibility c)) = infuraProjectId c"
  "mutex (snd (getEIP1559Compatibility c)) = mutex c"
  "blockTracker (snd (getEIP1559Compatibility c)) = blockTracker c"
  "provider (snd (getEIP1559Compatibility c)) = provider c"
  "published (snd (getEIP1559Compatibility c)) = published c"
  "timers (snd (getEIP1559Compatibility c)) = timers c"
  "netVersionCallbacks (snd (getEIP1559Compatibility c)) = netVersionCallbacks c"
  by (simp_all add: getEIP1559Compatibility_def Let_def)

lemma lookupNetwork_fields [simp]:
  "state (lookupNetwork c) = state c"
  "ethQuery (lookupNetwork c) = ethQuery c"
  "infuraProjectId (lookupNetwork c) = infuraProjectId c"
  "blockTracker (lookupNetwork c) = blockTracker c"
  "provider (lookupNetwork c) = provider c"
  "published (lookupNetwork c) = published c"
  "timers (lookupNetwork c) = timers c"
  "requests (lookupNetwork c) = requests c"
  "netVersionCallbacks (lookupNetwork c) = netVersionCallbacks c"
  "blockCallbacks (lookupNetwork c) = blockCallbacks c"
  "locked (mutex (lookupNetwork c)) = locked (mutex c)"
  "queue (mutex (lookupNetwork c)) = (if canSend c then queue (mutex c) + 1 else queue (mutex c))"
  by (simp_all add: lookupNetwork_def)

lemma canSend_lookupNetwork [simp]: "canSend (lookupNetwork c) = canSend c"
  by (simp add: canSend_def)

lemma updateProvider_eq:
  "updateProvider c cl =
     Returned (c\<lparr> timers := timers c @ [provider c],
                  provider := Some \<lparr> networkMiddleware = cl, errorListeners = 1 \<rparr>,
                  blockTracker := Some cl,
                  published := published c @
                    [ProviderChange \<lparr> networkMiddleware = cl, errorListeners = 0 \<rparr>],
                  ethQuery := Some \<lparr> currentProvider = cl, sendAsync = True \<rparr> \<rparr>)"
  by (simp add: updateProvider_def safelyStopProvider_def registerProvider_def publish_def Let_def)

lemma initializeProvider_throws:
  "throws (initializeProvider c t target cid) =
     (t \<notin> {''kovan'', MAINNET, ''rinkeby'', ''goerli'', ''ropsten'', ''localhost'', RPC})"
  by (simp add: initializeProvider_def Let_def updateProvider_eq
      setupInfuraProvider_def setupStandardProvider_def split: option.splits)

lemma initializeProvider_state:
  "state (final (initializeProvider c t target cid)) =
     (state c)\<lparr>isCustomNetwork := getIsCustomNetwork cid\<rparr>"
  by (simp add: initializeProvider_def Let_def updateProvider_eq
      setupInfuraProvider_def setupStandardProvider_def split: option.splits)

lemma state_final_andThen_lookupNetwork:
  "state (final (andThen out (\<lambda>c. Returned (lookupNetwork c)))) = state (final out)"
  by (cases out) simp_all

lemma provider_final_andThen_lookupNetwork:
  "provider (final (andThen out (\<lambda>c. Returned (lookupNetwork c)))) = provider (final out)"
  by (cases out) simp_all

lemma throws_andThen_Returned:
  "throws (andThen out (\<lambda>c. Returned (g c))) = throws out"
  by (cases out) simp_all

lemma lookupNetworkSettled_eq: "lookupNetworkSettled c r = netVersionCallback c r"
  by (cases r) (simp_all add: netVersionCallback_def lookupNetworkSettled_def Let_def)

lemma refreshNetwork_network:
  "network (state (final (refreshNetwork c))) = ''loading''"
  by (simp add: refreshNetwork_def Let_def state_final_andThen_lookupNetwork
      initializeProvider_state)

lemma initializeProvider_rpc_no_target:
  "target = None \<or> target = Some [] \<Longrightarrow>
     provider (final (initializeProvider c RPC target cid)) = provider c"
  by (auto simp add: initializeProvider_def Let_def RPC_def MAINNET_def)

lemma ethQuery_final_andThen_lookupNetwork:
  "ethQuery (final (andThen out (\<lambda>c. Returned (lookupNetwork c)))) = ethQuery (final out)"
  by (cases out) simp_all

lemma lookupNetworkResume_fields [simp]:
  "state (lookupNetworkResume c) = state c"
  "ethQuery (lookupNetworkResume c) = ethQuery c"
  "provider (lookupNetworkResume c) = provider c"
  "published (lookupNetworkResume c) = published c"
  "locked (mutex (lookupNetworkResume c)) = True"
  "queue (mutex (lookupNetworkResume c)) = queue (mutex c) - 1"
  "netVersionCallbacks (lookupNetworkResume c) =
     (if canSend c then netVersionCallbacks c + 1 else netVersionCallbacks c)"
  by (simp_all add: lookupNetworkResume_def Let_def canSend_def)

lemma canSend_lookupNetworkResume [simp]: "canSend (lookupNetworkResume c) = canSend c"
  by (simp add: canSend_def)

lemma netVersionCallback_fields [simp]:
  "ethQuery (netVersionCallback c r) = ethQuery c"
  "provider (netVersionCallback c r) = provider c"
  "locked (mutex (netVersionCallback c r)) = False"
  "queue (mutex (netVersionCallback c r)) = queue (mutex c)"
  "netVersionCallbacks (netVersionCallback c r) = netVersionCallbacks c"
  by (simp_all add: netVersionCallback_def Let_def)

lemma canSend_netVersionCallback [simp]: "canSend (netVersionCallback c r) = canSend c"
  by (simp add: canSend_def)

lemma canSend_netVersionCallbacks_update [simp]:
  "canSend (c\<lparr>netVersionCallbacks := n\<rparr>) = canSend c"
  by (simp add: canSend_def)

lemma netVersionCallback_state:
  "state (netVersionCallback c r) =
     (state c)\<lparr>network := (case r of Err e \<Rightarrow> ''loading'' | Ok n \<Rightarrow> n)\<rparr>"
  by (cases r) (simp_all add: netVersionCallback_def Let_def)

lemma netVersionCallback_published:
  "published (netVersionCallback c r) =
     published c @
       (case r of
          Ok n \<Rightarrow>
            if network (state c) = n then []
            else [StateChange ((state c)\<lparr>network := n\<rparr>),
                  ProviderConfigChange (providerConfig (state c))]
        | Err e \<Rightarrow>
            [StateChange ((state c)\<lparr>network := ''loading''\<rparr>),
             ProviderConfigChange (providerConfig (state c))])"
  by (cases r) (simp_all add: netVersionCallback_def Let_def)

lemma getBlockCallback_fields [simp]:
  "ethQuery (snd (getBlockCallback props c r)) = ethQuery c"
  "provider (snd (getBlockCallback props c r)) = provider c"
  "mutex (snd (getBlockCallback props c r)) = mutex c"
  "netVersionCallbacks (snd (getBlockCallback props c r)) = netVersionCallbacks c"
  by (simp_all add: getBlockCallback_def Let_def split: reply.splits)

lemma verifyNetwork_fields [simp]:
  "ethQuery (verifyNetwork c) = ethQuery c"
  "provider (verifyNetwork c) = provider c"
  by (simp_all add: verifyNetwork_def)

lemma verifyNetwork_pow_fields [simp]:
  "ethQuery ((verifyNetwork ^^ n) c) = ethQuery c"
  "provider ((verifyNetwork ^^ n) c) = provider c"
  by (induction n) simp_all

lemma lookupNetworkAwait_eq: "canSend c \<Longrightarrow> lookupNetworkAwait c = lookupNetworkResume c"
  by (simp add: lookupNetworkAwait_def lookupNetworkResume_def Let_def canSend_def)

lemma stepSettled_eq: "canSend c \<Longrightarrow> stepSettled e c = step e c"
  by (cases e) (simp_all add: lookupNetworkSettled_eq lookupNetworkAwait_eq)

lemma canSend_detection_step:
  "detectionEvent e \<Longrightarrow> step e c = Some c' \<Longrightarrow> canSend c' = canSend c"
  by (cases e) (auto split: if_splits)

lemma runSettled_eq:
  "canSend c \<Longrightarrow> list_all detectionEvent es \<Longrightarrow> runSettled es c = run es c"
proof (induction es arbitrary: c)
  case Nil
  then show ?case by simp
next
  case (Cons e es)
  show ?case
  proof (cases "step e c")
    case None
    with Cons.prems show ?thesis by (simp add: stepSettled_eq)
  next
    case (Some c1)
    with Cons.prems canSend_detection_step [of e c c1] have "canSend c1" by simp
    with Cons Some show ?thesis by (simp add: stepSettled_eq)
  qed
qed

section \<open>Selection changes\<close>

text \<open>
  C1, as the code has it. \<open>setProviderType\<close> and \<open>setRpcTarget\<close> go through
  \<open>refreshNetwork\<close>: when their synchronous part is over (also when it ends in the
  exception for an unrecognized type), the stored network is \<open>loading\<close>; no reply has
  been applied by then, since callbacks are events of their own. The setter of
  \<open>providerConfig\<close> calls \<open>initializeProvider\<close> and \<open>lookupNetwork\<close> without
  \<open>refreshNetwork\<close>: it leaves the stored network as it was.
\<close>

theorem selection_change_resets_network:
  "network (state (final (setProviderType c t))) = ''loading'' \<and>
   network (state (final (setRpcTarget c target cid tk nick))) = ''loading'' \<and>
   network (state (final (set_providerConfig c cfg))) = network (state c)"
  by (simp add: setProviderType_def setRpcTarget_def set_providerConfig_def Let_def
      refreshNetwork_network state_final_andThen_lookupNetwork initializeProvider_state)

text \<open>
  C1 as stated fails for the setter: on a controller constructed with the stored
  network \<open>1\<close>, the network is still \<open>1\<close>, not \<open>loading\<close>, when the setter returns.
\<close>

theorem setter_keeps_network_counterexample:
  "network (state (final (set_providerConfig
     (constructor \<lparr> optInfuraProjectId = Some ''foo'', optNetwork = Some ''1'',
                    optIsCustomNetwork = None, optProviderConfig = None,
                    optProperties = None \<rparr>)
     \<lparr> rpcTarget = None, type = ''goerli'', chainId = Some ''5'', ticker = None,
       nickname = None \<rparr>))) \<noteq> ''loading''"
  by (simp add: set_providerConfig_def Let_def state_final_andThen_lookupNetwork
      initializeProvider_state constructor_def orDefault_def)

text \<open>
  C4. A selection change throws exactly when the network type is none of the cases of
  the \<^verbatim>\<open>switch\<close> in \<open>initializeProvider\<close>: \<open>setProviderType\<close> for its argument,
  the setter for the type stored in the state; \<open>setRpcTarget\<close> stores the type
  \<open>rpc\<close> and never throws.
\<close>

theorem throws_iff_unrecognized:
  "throws (setProviderType c t) =
     (t \<notin> {''kovan'', MAINNET, ''rinkeby'', ''goerli'', ''ropsten'', ''localhost'', RPC}) \<and>
   \<not> throws (setRpcTarget c target cid tk nick) \<and>
   throws (set_providerConfig c cfg) =
     (type (providerConfig (state c)) \<notin>
        {''kovan'', MAINNET, ''rinkeby'', ''goerli'', ''ropsten'', ''localhost'', RPC})"
  by (simp add: setProviderType_def setRpcTarget_def set_providerConfig_def refreshNetwork_def
      Let_def throws_andThen_Returned initializeProvider_throws)

theorem throws_iff_unrecognized_witness:
  "throws (setProviderType
     (constructor \<lparr> optInfuraProjectId = Some ''foo'', optNetwork = None,
                    optIsCustomNetwork = None, optProviderConfig = None,
                    optProperties = None \<rparr>) ''junk'') \<and>
   \<not> throws (setProviderType
     (constructor \<lparr> optInfuraProjectId = Some ''foo'', optNetwork = None,
                    optIsCustomNetwork = None, optProviderConfig = None,
                    optProperties = None \<rparr>) ''goerli'')"
  using
    throws_iff_unrecognized
      [of "constructor \<lparr> optInfuraProjectId = Some ''foo'', optNetwork = None,
                         optIsCustomNetwork = None, optProviderConfig = None,
                         optProperties = None \<rparr>" "''junk''"]
    throws_iff_unrecognized
      [of "constructor \<lparr> optInfuraProjectId = Some ''foo'', optNetwork = None,
                         optIsCustomNetwork = None, optProviderConfig = None,
                         optProperties = None \<rparr>" "''goerli''"]
  by (simp add: MAINNET_def RPC_def)

text \<open>
  C7, as the code has it. With an empty RPC target (\<open>setRpcTarget\<close> with the empty
  string, or \<open>setProviderType\<close> with \<open>rpc\<close>, which clears the target) the call does
  not throw and sets up no provider: the \<open>provider\<close> field is what it was before, so
  it is unset afterwards if it was unset before.
\<close>

theorem empty_rpc_target_keeps_provider:
  "\<not> throws (setRpcTarget c [] cid tk nick) \<and>
   provider (final (setRpcTarget c [] cid tk nick)) = provider c \<and>
   \<not> throws (setProviderType c RPC) \<and>
   provider (final (setProviderType c RPC)) = provider c"
  by (simp add: setProviderType_def setRpcTarget_def refreshNetwork_def
      Let_def throws_andThen_Returned initializeProvider_throws
      provider_final_andThen_lookupNetwork initializeProvider_rpc_no_target)

text \<open>
  C7 as stated fails once a provider is active: after \<open>setProviderType\<close> with
  \<open>mainnet\<close>, \<open>setRpcTarget\<close> with an empty target leaves the Infura provider in the
  \<open>provider\<close> field.
\<close>

theorem empty_rpc_target_counterexample:
  "provider (final (setRpcTarget
     (final (setProviderType
        (constructor \<lparr> optInfuraProjectId = Some ''foo'', optNetwork = None,
                       optIsCustomNetwork = None, optProviderConfig = None,
                       optProperties = None \<rparr>) ''mainnet''))
     [] ''1'' None None)) =
   Some \<lparr> networkMiddleware = InfuraClient ''mainnet'' (Some ''foo''), errorListeners = 1 \<rparr>"
proof -
  have "provider (final (setProviderType
          (constructor \<lparr> optInfuraProjectId = Some ''foo'', optNetwork = None,
                         optIsCustomNetwork = None, optProviderConfig = None,
                         optProperties = None \<rparr>) ''mainnet'')) =
        Some \<lparr> networkMiddleware = InfuraClient ''mainnet'' (Some ''foo''),
               errorListeners = 1 \<rparr>"
    by (simp add: setProviderType_def refreshNetwork_def Let_def
        provider_final_andThen_lookupNetwork initializeProvider_def MAINNET_def
        setupInfuraProvider_def updateProvider_eq constructor_def)
  then show ?thesis
    by (simp add: setRpcTarget_def refreshNetwork_def Let_def
        provider_final_andThen_lookupNetwork initializeProvider_rpc_no_target)
qed

text \<open>
  C10. The setter of \<open>providerConfig\<close> never reads the value assigned: from the same
  controller, any two assigned values give the same outcome (the same exception or
  return, the same state, provider and published messages).
\<close>

theorem providerConfig_setter_ignores_argument:
  "set_providerConfig c cfg1 = set_providerConfig c cfg2"
  by (simp add: set_providerConfig_def)

section \<open>Detection rounds\<close>

text \<open>
  C8. When the \<open>net_version\<close> request fails, the round stores \<open>loading\<close> as the
  network, whatever was stored before; in NetworkController.ts and in part_002 alike.
  Neither function has a branch that throws: the error of the request ends in the
  state, not at the caller.
\<close>

theorem lookup_failure_stores_loading:
  "network (state (netVersionCallback c (Err e))) = ''loading'' \<and>
   network (state (lookupNetworkSettled c (Err e))) = ''loading''"
  by (simp add: netVersionCallback_def lookupNetworkSettled_def Let_def)

text \<open>
  C3, as the code has it. A round that ends with an error, or with a network id other
  than the stored one, updates the state and then publishes \<open>providerConfigChange\<close>
  once, carrying the stored provider configuration. A round whose network id equals the
  stored one returns early: it publishes nothing and writes nothing.
\<close>

theorem round_publishes_unless_same_id:
  "published (netVersionCallback c r) =
     published c @
       (case r of
          Ok n \<Rightarrow>
            if network (state c) = n then []
            else [StateChange ((state c)\<lparr>network := n\<rparr>),
                  ProviderConfigChange (providerConfig (state c))]
        | Err e \<Rightarrow>
            [StateChange ((state c)\<lparr>network := ''loading''\<rparr>),
             ProviderConfigChange (providerConfig (state c))]) \<and>
   published (lookupNetworkSettled c r) = published (netVersionCallback c r) \<and>
   (r = Ok (network (state c)) \<longrightarrow> state (netVersionCallback c r) = state c)"
  by (cases r) (simp_all add: netVersionCallback_def lookupNetworkSettled_def Let_def)

theorem round_publishes_unless_same_id_witness:
  "state (netVersionCallback
     (constructor \<lparr> optInfuraProjectId = Some ''foo'', optNetwork = Some ''1'',
                    optIsCustomNetwork = None, optProviderConfig = None,
                    optProperties = None \<rparr>) (Ok ''1'')) =
   state (constructor \<lparr> optInfuraProjectId = Some ''foo'', optNetwork = Some ''1'',
                    optIsCustomNetwork = None, optProviderConfig = None,
                    optProperties = None \<rparr>)"
  using round_publishes_unless_same_id
    [of "constructor \<lparr> optInfuraProjectId = Some ''foo'', optNetwork = Some ''1'',
                       optIsCustomNetwork = None, optProviderConfig = None,
                       optProperties = None \<rparr>" "Ok ''1''"]
  by (simp add: constructor_def orDefault_def)

text \<open>
  C3 as stated fails when the id is the stored one. A controller constructed with the
  stored network \<open>1\<close> gets its provider through the setter; the lock is handed over,
  the request is sent, and the reply \<open>1\<close> completes the round: no
  \<open>providerConfigChange\<close> has been published.
\<close>

theorem same_id_round_counterexample:
  "map_option (\<lambda>c. filter isProviderConfigChange (published c))
     (run [AssignProviderConfig \<lparr> rpcTarget = None, type = ''mainnet'', chainId = Some ''1'',
                                  ticker = None, nickname = None \<rparr>,
           LockGranted, NetVersionReply (Ok ''1'')]
        (constructor \<lparr> optInfuraProjectId = Some ''foo'', optNetwork = Some ''1'',
                       optIsCustomNetwork = None, optProviderConfig = None,
                       optProperties = None \<rparr>)) = Some []"
  by (simp add: set_providerConfig_def Let_def constructor_def orDefault_def defaultState_def
      initializeProvider_def MAINNET_def RPC_def setupInfuraProvider_def updateProvider_eq
      getEIP1559Compatibility_def canSend_def send_def lookupNetwork_def
      lookupNetworkResume_def netVersionCallback_def releaseLock_def update_def publish_def)

lemma idle_next:
  assumes "run es c = Some c'" "list_all detectionEvent es"
    and "\<not> locked (mutex c)" "netVersionCallbacks c = 0"
  shows "es = [] \<or>
         (0 < queue (mutex c) \<and>
          (\<exists>es'. es = LockGranted # es' \<and> run es' (lookupNetworkResume c) = Some c'))"
proof (cases es)
  case Nil
  then show ?thesis by simp
next
  case (Cons e es')
  with assms show ?thesis by (cases e) (auto split: if_splits)
qed

lemma busy_next:
  assumes "run es c = Some c'" "list_all detectionEvent es"
    and "locked (mutex c)"
  shows "es = [] \<or>
         (\<exists>r es'. es = NetVersionReply r # es' \<and> 0 < netVersionCallbacks c \<and>
            run es'
              (netVersionCallback (c\<lparr>netVersionCallbacks := netVersionCallbacks c - 1\<rparr>) r) =
              Some c')"
proof (cases es)
  case Nil
  then show ?thesis by simp
next
  case (Cons e es')
  with assms show ?thesis by (cases e) (auto split: if_splits)
qed

lemma rounds_in_order:
  assumes "run es c = Some c'" "list_all detectionEvent es"
    and "netVersionReplies es = rs"
    and "\<not> locked (mutex c)" "netVersionCallbacks c = 0" "queue (mutex c) = length rs"
    and "canSend c"
  shows "es = concat (map (\<lambda>r. [LockGranted, NetVersionReply r]) rs)"
  using assms
proof (induction rs arbitrary: es c)
  case Nil
  from idle_next [OF Nil.prems(1,2,4,5)] Nil.prems(6) show ?case by simp
next
  case (Cons r rs)
  from Cons.prems(3) have "es \<noteq> []" by auto
  with idle_next [OF Cons.prems(1,2,4,5)] obtain es1 where
    es: "es = LockGranted # es1" and r1: "run es1 (lookupNetworkResume c) = Some c'"
    by auto
  from es Cons.prems have d1: "list_all detectionEvent es1"
    and n1: "netVersionReplies es1 = r # rs" by simp_all
  from n1 have "es1 \<noteq> []" by auto
  with busy_next [OF r1 d1] obtain r' es2 where
    es1: "es1 = NetVersionReply r' # es2"
    and r2: "run es2 (netVersionCallback
               ((lookupNetworkResume c)\<lparr>netVersionCallbacks :=
                  netVersionCallbacks (lookupNetworkResume c) - 1\<rparr>) r') = Some c'"
    by auto
  from es1 n1 have r': "r' = r" and n2: "netVersionReplies es2 = rs" by simp_all
  from es1 d1 have d2: "list_all detectionEvent es2" by simp
  have "es2 = concat (map (\<lambda>r. [LockGranted, NetVersionReply r]) rs)"
    using Cons.prems(4-7)
    by (intro Cons.IH [OF r2 d2 n2]) (simp_all add: canSend_def)
  with es es1 r' show ?case by simp
qed

lemma one_round:
  assumes "canSend c" "\<not> locked (mutex c)" "0 < queue (mutex c)" "netVersionCallbacks c = 0"
  shows "run (LockGranted # NetVersionReply r # es) c =
           run es (netVersionCallback
                     ((lookupNetworkResume c)\<lparr>netVersionCallbacks := 0\<rparr>) r)"
  using assms by simp

text \<open>
  C2, as the code has it. Three calls of \<open>lookupNetwork\<close> wait for the lock, on a
  controller that can send and has no round pending. Whatever the schedule of lock
  hand-overs and replies that delivers the replies \<open>1\<close>, \<open>2\<close>, \<open>3\<close> in this order,
  it is the one in which each request is sent only after the reply to the one before:
  never more than one request waits for its reply. The state updates are published in
  the order of the replies, each followed by \<open>providerConfigChange\<close>: exactly three,
  with the networks \<open>1\<close>, \<open>2\<close>, \<open>3\<close>, when the stored network was not \<open>1\<close>
  before; when it was, the first round changes nothing and there are exactly two, with
  \<open>2\<close> and \<open>3\<close>. The same holds with the \<open>lookupNetwork\<close> of part_002.
\<close>

theorem three_lookups_in_order:
  assumes "canSend c" "\<not> locked (mutex c)" "queue (mutex c) = 0" "netVersionCallbacks c = 0"
    and "run es (lookupNetwork (lookupNetwork (lookupNetwork c))) = Some c'"
    and "list_all detectionEvent es"
    and "netVersionReplies es = [Ok ''1'', Ok ''2'', Ok ''3'']"
  shows "es = [LockGranted, NetVersionReply (Ok ''1''),
               LockGranted, NetVersionReply (Ok ''2''),
               LockGranted, NetVersionReply (Ok ''3'')] \<and>
         published c' = published c @
           (if network (state c) = ''1'' then []
            else [StateChange ((state c)\<lparr>network := ''1''\<rparr>),
                  ProviderConfigChange (providerConfig (state c))]) @
           [StateChange ((state c)\<lparr>network := ''2''\<rparr>),
            ProviderConfigChange (providerConfig (state c)),
            StateChange ((state c)\<lparr>network := ''3''\<rparr>),
            ProviderConfigChange (providerConfig (state c))] \<and>
         state c' = (state c)\<lparr>network := ''3''\<rparr> \<and>
         map (\<lambda>n. map_option netVersionCallbacks
                (run (take n es) (lookupNetwork (lookupNetwork (lookupNetwork c)))))
           [0, 1, 2, 3, 4, 5, 6] =
           [Some 0, Some 1, Some 0, Some 1, Some 0, Some 1, Some 0] \<and>
         runSettled es (lookupNetwork (lookupNetwork (lookupNetwork c))) = Some c'"
proof -
  let ?c3 = "lookupNetwork (lookupNetwork (lookupNetwork c))"
  have es: "es = [LockGranted, NetVersionReply (Ok ''1''),
               LockGranted, NetVersionReply (Ok ''2''),
               LockGranted, NetVersionReply (Ok ''3'')]"
    using rounds_in_order [OF assms(5,6,7)] assms(1-4) by simp
  have c': "c' = netVersionCallback ((lookupNetworkResume
              (netVersionCallback ((lookupNetworkResume
                (netVersionCallback ((lookupNetworkResume ?c3)
                   \<lparr>netVersionCallbacks := 0\<rparr>) (Ok ''1'')))
                   \<lparr>netVersionCallbacks := 0\<rparr>) (Ok ''2'')))
                   \<lparr>netVersionCallbacks := 0\<rparr>) (Ok ''3'')"
    using assms(1-5) unfolding es by (simp add: one_round del: run.simps(2))
  have p: "published c' = published c @
           (if network (state c) = ''1'' then []
            else [StateChange ((state c)\<lparr>network := ''1''\<rparr>),
                  ProviderConfigChange (providerConfig (state c))]) @
           [StateChange ((state c)\<lparr>network := ''2''\<rparr>),
            ProviderConfigChange (providerConfig (state c)),
            StateChange ((state c)\<lparr>network := ''3''\<rparr>),
            ProviderConfigChange (providerConfig (state c))]"
    unfolding c' by (simp add: netVersionCallback_published netVersionCallback_state)
  have s: "state c' = (state c)\<lparr>network := ''3''\<rparr>"
    unfolding c' by (simp add: netVersionCallback_state)
  have f: "map (\<lambda>n. map_option netVersionCallbacks (run (take n es) ?c3))
           [0, 1, 2, 3, 4, 5, 6] =
           [Some 0, Some 1, Some 0, Some 1, Some 0, Some 1, Some 0]"
    unfolding es using assms(1-4) by (simp add: numeral_eq_Suc)
  from assms(1,5,6) have "runSettled es ?c3 = Some c'"
    by (simp add: runSettled_eq)
  with es p s f show ?thesis by simp
qed

theorem three_lookups_in_order_witness:
  "published
     (the (run [LockGranted, NetVersionReply (Ok ''1''),
                LockGranted, NetVersionReply (Ok ''2''),
                LockGranted, NetVersionReply (Ok ''3'')]
        (lookupNetwork (lookupNetwork (lookupNetwork
           (the (run [CallSetProviderType ''goerli'', LockGranted, NetVersionReply (Ok ''5'')]
              (constructor \<lparr> optInfuraProjectId = Some ''foo'', optNetwork = None,
                             optIsCustomNetwork = None, optProviderConfig = None,
                             optProperties = None \<rparr>)))))))) =
   published
     (the (run [CallSetProviderType ''goerli'', LockGranted, NetVersionReply (Ok ''5'')]
        (constructor \<lparr> optInfuraProjectId = Some ''foo'', optNetwork = None,
                       optIsCustomNetwork = None, optProviderConfig = None,
                       optProperties = None \<rparr>))) @
   [StateChange
      \<lparr> network = ''1'', isCustomNetwork = False,
        providerConfig = \<lparr> rpcTarget = None, type = ''goerli'', chainId = Some ''5'',
                           ticker = Some ''GoerliETH'', nickname = None \<rparr>,
        properties = \<lparr> isEIP1559Compatible = None \<rparr>, networkConfigurations = [] \<rparr>,
    ProviderConfigChange
      \<lparr> rpcTarget = None, type = ''goerli'', chainId = Some ''5'',
        ticker = Some ''GoerliETH'', nickname = None \<rparr>,
    StateChange
      \<lparr> network = ''2'', isCustomNetwork = False,
        providerConfig = \<lparr> rpcTarget = None, type = ''goerli'', chainId = Some ''5'',
                           ticker = Some ''GoerliETH'', nickname = None \<rparr>,
        properties = \<lparr> isEIP1559Compatible = None \<rparr>, networkConfigurations = [] \<rparr>,
    ProviderConfigChange
      \<lparr> rpcTarget = None, type = ''goerli'', chainId = Some ''5'',
        ticker = Some ''GoerliETH'', nickname = None \<rparr>,
    StateChange
      \<lparr> network = ''3'', isCustomNetwork = False,
        providerConfig = \<lparr> rpcTarget = None, type = ''goerli'', chainId = Some ''5'',
                           ticker = Some ''GoerliETH'', nickname = None \<rparr>,
        properties = \<lparr> isEIP1559Compatible = None \<rparr>, networkConfigurations = [] \<rparr>,
    ProviderConfigChange
      \<lparr> rpcTarget = None, type = ''goerli'', chainId = Some ''5'',
        ticker = Some ''GoerliETH'', nickname = None \<rparr>]"
proof -
  let ?c0 = "constructor \<lparr> optInfuraProjectId = Some ''foo'', optNetwork = None,
                       optIsCustomNetwork = None, optProviderConfig = None,
                       optProperties = None \<rparr>"
  let ?es = "[LockGranted, NetVersionReply (Ok ''1''),
              LockGranted, NetVersionReply (Ok ''2''),
              LockGranted, NetVersionReply (Ok ''3'')]"
  note defs = setProviderType_def refreshNetwork_def Let_def constructor_def orDefault_def
      defaultState_def initializeProvider_def MAINNET_def RPC_def setupInfuraProvider_def
      updateProvider_eq getEIP1559Compatibility_def canSend_def send_def lookupNetwork_def
      lookupNetworkResume_def netVersionCallback_def releaseLock_def update_def publish_def
      NetworksChainId_def TESTNET_NETWORK_TYPE_TO_TICKER_SYMBOL_def getIsCustomNetwork_def
  define c where
    "c = the (run [CallSetProviderType ''goerli'', LockGranted, NetVersionReply (Ok ''5'')] ?c0)"
  define c' where "c' = the (run ?es (lookupNetwork (lookupNetwork (lookupNetwork c))))"
  have s: "canSend c" by (simp add: c_def defs)
  have l: "\<not> locked (mutex c)" by (simp add: c_def defs)
  have q: "queue (mutex c) = 0" by (simp add: c_def defs)
  have n: "netVersionCallbacks c = 0" by (simp add: c_def defs)
  have st: "state c =
      \<lparr> network = ''5'', isCustomNetwork = False,
        providerConfig = \<lparr> rpcTarget = None, type = ''goerli'', chainId = Some ''5'',
                           ticker = Some ''GoerliETH'', nickname = None \<rparr>,
        properties = \<lparr> isEIP1559Compatible = None \<rparr>, networkConfigurations = [] \<rparr>"
    by (simp add: c_def defs)
  then have n1: "network (state c) \<noteq> ''1''" by simp
  have r: "run ?es (lookupNetwork (lookupNetwork (lookupNetwork c))) = Some c'"
    unfolding c'_def using s l q n by simp
  have d: "list_all detectionEvent ?es" by simp
  have v: "netVersionReplies ?es = [Ok ''1'', Ok ''2'', Ok ''3'']" by simp
  from three_lookups_in_order [OF s l q n r d v] st n1
  have "published c' = published c @
   [StateChange
      \<lparr> network = ''1'', isCustomNetwork = False,
        providerConfig = \<lparr> rpcTarget = None, type = ''goerli'', chainId = Some ''5'',
                           ticker = Some ''GoerliETH'', nickname = None \<rparr>,
        properties = \<lparr> isEIP1559Compatible = None \<rparr>, networkConfigurations = [] \<rparr>,
    ProviderConfigChange
      \<lparr> rpcTarget = None, type = ''goerli'', chainId = Some ''5'',
        ticker = Some ''GoerliETH'', nickname = None \<rparr>,
    StateChange
      \<lparr> network = ''2'', isCustomNetwork = False,
        providerConfig = \<lparr> rpcTarget = None, type = ''goerli'', chainId = Some ''5'',
                           ticker = Some ''GoerliETH'', nickname = None \<rparr>,
        properties = \<lparr> isEIP1559Compatible = None \<rparr>, networkConfigurations = [] \<rparr>,
    ProviderConfigChange
      \<lparr> rpcTarget = None, type = ''goerli'', chainId = Some ''5'',
        ticker = Some ''GoerliETH'', nickname = None \<rparr>,
    StateChange
      \<lparr> network = ''3'', isCustomNetwork = False,
        providerConfig = \<lparr> rpcTarget = None, type = ''goerli'', chainId = Some ''5'',
                           ticker = Some ''GoerliETH'', nickname = None \<rparr>,
        properties = \<lparr> isEIP1559Compatible = None \<rparr>, networkConfigurations = [] \<rparr>,
    ProviderConfigChange
      \<lparr> rpcTarget = None, type = ''goerli'', chainId = Some ''5'',
        ticker = Some ''GoerliETH'', nickname = None \<rparr>]"
    by simp
  then show ?thesis unfolding c'_def c_def .
qed

text \<open>
  C2 as stated fails when the stored network is already \<open>1\<close>: the first round
  returns early. A controller constructed with the stored network \<open>1\<close> gets its
  provider through the setter and completes that round (two messages published by
  then); of the three concurrent calls that follow, with the replies \<open>1\<close>, \<open>2\<close>,
  \<open>3\<close>, only two update the state.
\<close>

theorem three_lookups_counterexample:
  "map_option (\<lambda>c. length (published c))
     (run [AssignProviderConfig \<lparr> rpcTarget = None, type = ''mainnet'', chainId = Some ''1'',
                                  ticker = None, nickname = None \<rparr>,
           LockGranted, NetVersionReply (Ok ''1'')]
        (constructor \<lparr> optInfuraProjectId = Some ''foo'', optNetwork = Some ''1'',
                       optIsCustomNetwork = None, optProviderConfig = None,
                       optProperties = None \<rparr>)) = Some 2 \<and>
   map_option (\<lambda>c. map network [s. StateChange s \<leftarrow> drop 2 (published c)])
     (run [AssignProviderConfig \<lparr> rpcTarget = None, type = ''mainnet'', chainId = Some ''1'',
                                  ticker = None, nickname = None \<rparr>,
           LockGranted, NetVersionReply (Ok ''1''),
           CallLookupNetwork, CallLookupNetwork, CallLookupNetwork,
           LockGranted, NetVersionReply (Ok ''1''),
           LockGranted, NetVersionReply (Ok ''2''),
           LockGranted, NetVersionReply (Ok ''3'')]
        (constructor \<lparr> optInfuraProjectId = Some ''foo'', optNetwork = Some ''1'',
                       optIsCustomNetwork = None, optProviderConfig = None,
                       optProperties = None \<rparr>)) = Some [''2'', ''3'']"
  by (simp add: set_providerConfig_def Let_def constructor_def orDefault_def defaultState_def
      initializeProvider_def MAINNET_def RPC_def setupInfuraProvider_def updateProvider_eq
      getEIP1559Compatibility_def canSend_def send_def lookupNetwork_def
      lookupNetworkResume_def netVersionCallback_def releaseLock_def update_def publish_def)

section \<open>Errors of the active provider\<close>

lemma initializeProvider_connection:
  "(provider (final (initializeProvider c t target cid)) = provider c \<and>
    ethQuery (final (initializeProvider c t target cid)) = ethQuery c) \<or>
   (map_option errorListeners (provider (final (initializeProvider c t target cid))) = Some 1 \<and>
    map_option sendAsync (ethQuery (final (initializeProvider c t target cid))) = Some True)"
  by (simp add: initializeProvider_def Let_def updateProvider_eq
      setupInfuraProvider_def setupStandardProvider_def split: option.splits)

lemma rewired_frame:
  "provider c' = provider c \<Longrightarrow> ethQuery c' = ethQuery c \<Longrightarrow> rewired c c'"
  by (simp add: rewired_def)

lemma rewired_initializeProvider:
  "provider c1 = provider c \<Longrightarrow> ethQuery c1 = ethQuery c \<Longrightarrow>
     rewired c (final (andThen (initializeProvider c1 t target cid)
                         (\<lambda>c. Returned (lookupNetwork c))))"
  using initializeProvider_connection [of c1 t target cid]
  by (simp add: rewired_def provider_final_andThen_lookupNetwork
      ethQuery_final_andThen_lookupNetwork)

lemma rewired_setProviderType: "rewired c (final (setProviderType c t))"
  by (simp add: setProviderType_def refreshNetwork_def Let_def rewired_initializeProvider)

lemma rewired_setRpcTarget: "rewired c (final (setRpcTarget c target cid tk nick))"
  by (simp add: setRpcTarget_def refreshNetwork_def Let_def rewired_initializeProvider)

lemma rewired_set_providerConfig: "rewired c (final (set_providerConfig c cfg))"
  by (simp add: set_providerConfig_def Let_def rewired_initializeProvider)

lemma rewired_step: "step e c = Some c' \<Longrightarrow> rewired c c'"
proof (cases e)
  case (CallSetProviderType t)
  then show "step e c = Some c' \<Longrightarrow> ?thesis" using rewired_setProviderType [of c t] by auto
next
  case (CallSetRpcTarget target cid tk nick)
  then show "step e c = Some c' \<Longrightarrow> ?thesis"
    using rewired_setRpcTarget [of c target cid tk nick] by auto
next
  case (AssignProviderConfig cfg)
  then show "step e c = Some c' \<Longrightarrow> ?thesis"
    using rewired_set_providerConfig [of c cfg] by auto
next
  case CallLookupNetwork
  then show "step e c = Some c' \<Longrightarrow> ?thesis" by (auto intro!: rewired_frame)
next
  case CallGetEIP1559Compatibility
  then show "step e c = Some c' \<Longrightarrow> ?thesis" by (auto intro!: rewired_frame)
next
  case LockGranted
  then show "step e c = Some c' \<Longrightarrow> ?thesis"
    by (auto intro!: rewired_frame split: if_splits)
next
  case (NetVersionReply r)
  then show "step e c = Some c' \<Longrightarrow> ?thesis"
    by (auto intro!: rewired_frame split: if_splits)
next
  case (BlockReply i r)
  then show "step e c = Some c' \<Longrightarrow> ?thesis"
    by (auto intro!: rewired_frame split: if_splits)
next
  case ProviderError
  then show "step e c = Some c' \<Longrightarrow> ?thesis"
    by (auto intro!: rewired_frame split: option.splits)
qed

lemma wired_step:
  assumes "step e c = Some c'"
    and "\<forall>p. provider c = Some p \<longrightarrow> errorListeners p = 1 \<and> canSend c"
  shows "\<forall>p. provider c' = Some p \<longrightarrow> errorListeners p = 1 \<and> canSend c'"
proof (intro allI impI)
  fix p
  assume p: "provider c' = Some p"
  from rewired_step [OF assms(1)] consider
    (same) "provider c' = provider c" "ethQuery c' = ethQuery c" |
    (new) "map_option errorListeners (provider c') = Some 1"
      "map_option sendAsync (ethQuery c') = Some True"
    unfolding rewired_def by blast
  then show "errorListeners p = 1 \<and> canSend c'"
  proof cases
    case same
    with p assms(2) show ?thesis by (simp add: canSend_def)
  next
    case new
    with p show ?thesis by (auto simp: canSend_def split: option.splits)
  qed
qed

lemma wired_run:
  assumes "run es c = Some c'"
    and "\<forall>p. provider c = Some p \<longrightarrow> errorListeners p = 1 \<and> canSend c"
  shows "\<forall>p. provider c' = Some p \<longrightarrow> errorListeners p = 1 \<and> canSend c'"
  using assms
proof (induction es arbitrary: c)
  case Nil
  then show ?case by simp
next
  case (Cons e es)
  from Cons.prems(1) obtain c1 where s: "step e c = Some c1" and r: "run es c1 = Some c'"
    by (auto split: option.splits)
  from wired_step [OF s Cons.prems(2)] Cons.IH [OF r] show ?case by blast
qed

text \<open>
  C9. In every state the controller can reach from its construction in which a provider
  is active, that provider has exactly one listener for \<^verbatim>\<open>'error'\<close> and the
  \<open>ethQuery\<close> can send. So an error event there starts exactly one more detection
  round (one more \<open>lookupNetwork\<close> waits for the lock, nothing else changes) when the
  stored network is \<open>loading\<close>, and changes nothing at all otherwise.
\<close>

theorem error_event_one_round:
  assumes "run es (constructor opts) = Some c" and "provider c \<noteq> None"
  shows "step ProviderError c =
           Some (if network (state c) = ''loading''
                 then c\<lparr>mutex := (mutex c)\<lparr>queue := queue (mutex c) + 1\<rparr>\<rparr>
                 else c)"
proof -
  have "\<forall>p. provider (constructor opts) = Some p \<longrightarrow>
          errorListeners p = 1 \<and> canSend (constructor opts)"
    by (simp add: constructor_def)
  from wired_run [OF assms(1) this] assms(2)
  obtain p where "provider c = Some p" "errorListeners p = 1" "canSend c" by auto
  then show ?thesis by (simp add: verifyNetwork_def lookupNetwork_def)
qed


theorem error_event_one_round_witness:
  "step ProviderError
     (the (run [CallSetProviderType ''mainnet'']
        (constructor \<lparr> optInfuraProjectId = Some ''foo'', optNetwork = None,
                       optIsCustomNetwork = None, optProviderConfig = None,
                       optProperties = None \<rparr>))) =
   Some ((the (run [CallSetProviderType ''mainnet'']
        (constructor \<lparr> optInfuraProjectId = Some ''foo'', optNetwork = None,
                       optIsCustomNetwork = None, optProviderConfig = None,
                       optProperties = None \<rparr>)))
          \<lparr> mutex := \<lparr> locked = False, queue = 2 \<rparr> \<rparr>) \<and>
   step ProviderError
     (the (run [CallSetProviderType ''mainnet'', LockGranted, NetVersionReply (Ok ''1'')]
        (constructor \<lparr> optInfuraProjectId = Some ''foo'', optNetwork = None,
                       optIsCustomNetwork = None, optProviderConfig = None,
                       optProperties = None \<rparr>))) =
   Some (the (run [CallSetProviderType ''mainnet'', LockGranted, NetVersionReply (Ok ''1'')]
        (constructor \<lparr> optInfuraProjectId = Some ''foo'', optNetwork = None,
                       optIsCustomNetwork = None, optProviderConfig = None,
                       optProperties = None \<rparr>)))"
proof -
  let ?c0 = "constructor \<lparr> optInfuraProjectId = Some ''foo'', optNetwork = None,
                       optIsCustomNetwork = None, optProviderConfig = None,
                       optProperties = None \<rparr>"
  let ?es1 = "[CallSetProviderType ''mainnet'']"
  let ?es2 = "[CallSetProviderType ''mainnet'', LockGranted, NetVersionReply (Ok ''1'')]"
  note defs = setProviderType_def refreshNetwork_def Let_def constructor_def orDefault_def
      defaultState_def initializeProvider_def MAINNET_def RPC_def setupInfuraProvider_def
      updateProvider_eq getEIP1559Compatibility_def canSend_def send_def lookupNetwork_def
      lookupNetworkResume_def netVersionCallback_def releaseLock_def update_def publish_def
      NetworksChainId_def TESTNET_NETWORK_TYPE_TO_TICKER_SYMBOL_def getIsCustomNetwork_def
  define c1 where "c1 = the (run ?es1 ?c0)"
  define c2 where "c2 = the (run ?es2 ?c0)"
  have r1: "run ?es1 ?c0 = Some c1" by (simp add: c1_def)
  have p1: "provider c1 \<noteq> None" by (simp add: c1_def defs)
  have n1: "network (state c1) = ''loading''" by (simp add: c1_def defs)
  have m1: "mutex c1 = \<lparr> locked = False, queue = 1 \<rparr>" by (simp add: c1_def defs)
  have r2: "run ?es2 ?c0 = Some c2" by (simp add: c2_def defs)
  have p2: "provider c2 \<noteq> None" by (simp add: c2_def defs)
  have n2: "network (state c2) = ''1''" by (simp add: c2_def defs)
  have a: "step ProviderError c1 = Some (c1\<lparr> mutex := \<lparr> locked = False, queue = 2 \<rparr> \<rparr>)"
    using error_event_one_round [OF r1 p1] n1 m1 by simp
  have b: "step ProviderError c2 = Some c2"
    using error_event_one_round [OF r2 p2] n2 by simp
  from a b show ?thesis unfolding c1_def c2_def by (rule conjI)
qed

section \<open>The capability probe\<close>

text \<open>
  C5, as the code has it. (1) With the stored flag true the probe resolves to true at
  once: no request, nothing changed. (2) Without an \<open>ethQuery\<close> that can send it
  does the same. (3) Otherwise it hands exactly one \<open>eth_getBlockByNumber\<close> request
  to \<open>sendAsync\<close> and waits; with a block as the reply it resolves to whether the
  block has \<open>baseFeePerGas\<close>, and writes that to the state exactly when it differs from
  the flag the probe read when it was called; with an error it rejects and writes
  nothing. So a probe called while the flag is true never sets it back to false.
\<close>

theorem capability_probe:
  "(isEIP1559Compatible (properties (state c)) = Some True \<longrightarrow>
      getEIP1559Compatibility c = (Resolved True, c)) \<and>
   (\<not> canSend c \<longrightarrow> getEIP1559Compatibility c = (Resolved True, c)) \<and>
   (isEIP1559Compatible (properties (state c)) \<noteq> Some True \<and> canSend c \<longrightarrow>
      (\<exists>q. ethQuery c = Some q \<and>
           getEIP1559Compatibility c =
             (Pending,
              c\<lparr> requests := requests c @ [(eth_getBlockByNumber, currentProvider q)],
                 blockCallbacks := blockCallbacks c @ [properties (state c)] \<rparr>))) \<and>
   getBlockCallback props c' (Ok block) =
     (Resolved (baseFeePerGas block \<noteq> None),
      if isEIP1559Compatible props \<noteq> Some (baseFeePerGas block \<noteq> None)
      then update c' (\<lambda>s. s\<lparr>properties :=
             (properties s)\<lparr>isEIP1559Compatible := Some (baseFeePerGas block \<noteq> None)\<rparr>\<rparr>)
      else c') \<and>
   getBlockCallback props c' (Err e) = (Rejected e, c')"
  by (auto simp add: getEIP1559Compatibility_def getBlockCallback_def Let_def canSend_def
      send_def split: option.splits)

theorem capability_probe_witness:
  "getEIP1559Compatibility
     (constructor \<lparr> optInfuraProjectId = Some ''foo'', optNetwork = None,
                    optIsCustomNetwork = None, optProviderConfig = None,
                    optProperties = Some \<lparr> isEIP1559Compatible = Some True \<rparr> \<rparr>) =
     (Resolved True,
      constructor \<lparr> optInfuraProjectId = Some ''foo'', optNetwork = None,
                    optIsCustomNetwork = None, optProviderConfig = None,
                    optProperties = Some \<lparr> isEIP1559Compatible = Some True \<rparr> \<rparr>) \<and>
   getEIP1559Compatibility
     (constructor \<lparr> optInfuraProjectId = Some ''foo'', optNetwork = None,
                    optIsCustomNetwork = None, optProviderConfig = None,
                    optProperties = None \<rparr>) =
     (Resolved True,
      constructor \<lparr> optInfuraProjectId = Some ''foo'', optNetwork = None,
                    optIsCustomNetwork = None, optProviderConfig = None,
                    optProperties = None \<rparr>) \<and>
   fst (getEIP1559Compatibility
     ((constructor \<lparr> optInfuraProjectId = Some ''foo'', optNetwork = None,
                     optIsCustomNetwork = None, optProviderConfig = None,
                     optProperties = None \<rparr>)
        \<lparr> ethQuery := Some \<lparr> currentProvider = JsonRpcClient ''http://foo'' (Some ''123''),
                             sendAsync = True \<rparr> \<rparr>)) = Pending"
  using
    capability_probe
      [of "constructor \<lparr> optInfuraProjectId = Some ''foo'', optNetwork = None,
                         optIsCustomNetwork = None, optProviderConfig = None,
                         optProperties = Some \<lparr> isEIP1559Compatible = Some True \<rparr> \<rparr>"]
    capability_probe
      [of "constructor \<lparr> optInfuraProjectId = Some ''foo'', optNetwork = None,
                         optIsCustomNetwork = None, optProviderConfig = None,
                         optProperties = None \<rparr>"]
    capability_probe
      [of "(constructor \<lparr> optInfuraProjectId = Some ''foo'', optNetwork = None,
                          optIsCustomNetwork = None, optProviderConfig = None,
                          optProperties = None \<rparr>)
             \<lparr> ethQuery := Some \<lparr> currentProvider = JsonRpcClient ''http://foo'' (Some ''123''),
                                  sendAsync = True \<rparr> \<rparr>"]
  by (auto simp add: constructor_def orDefault_def defaultState_def canSend_def)

text \<open>
  C5 as stated fails for a probe that was called before the flag became true. A custom
  network is selected, then mainnet; each selection clears the flag and starts a probe.
  The reply for mainnet comes first, with a base fee: the flag is true. The late reply
  of the first probe has none, and its callback, which compares with the flag it read
  when called, sets the flag back to false.
\<close>

theorem stale_probe_counterexample:
  "map_option (\<lambda>c. isEIP1559Compatible (properties (state c)))
     (run [CallSetRpcTarget ''http://legacy'' ''61'' None None,
           CallSetProviderType ''mainnet'',
           BlockReply 1 (Ok \<lparr> baseFeePerGas = Some ''0x7'' \<rparr>)]
        (constructor \<lparr> optInfuraProjectId = Some ''foo'', optNetwork = None,
                       optIsCustomNetwork = None, optProviderConfig = None,
                       optProperties = None \<rparr>)) = Some (Some True) \<and>
   map_option (\<lambda>c. isEIP1559Compatible (properties (state c)))
     (run [CallSetRpcTarget ''http://legacy'' ''61'' None None,
           CallSetProviderType ''mainnet'',
           BlockReply 1 (Ok \<lparr> baseFeePerGas = Some ''0x7'' \<rparr>),
           BlockReply 0 (Ok \<lparr> baseFeePerGas = None \<rparr>)]
        (constructor \<lparr> optInfuraProjectId = Some ''foo'', optNetwork = None,
                       optIsCustomNetwork = None, optProviderConfig = None,
                       optProperties = None \<rparr>)) = Some (Some False)"
  by (simp add: setRpcTarget_def setProviderType_def refreshNetwork_def Let_def
      constructor_def orDefault_def defaultState_def initializeProvider_def MAINNET_def
      RPC_def setupInfuraProvider_def setupStandardProvider_def updateProvider_eq
      getEIP1559Compatibility_def getBlockCallback_def canSend_def send_def lookupNetwork_def
      NetworksChainId_def TESTNET_NETWORK_TYPE_TO_TICKER_SYMBOL_def getIsCustomNetwork_def
      update_def publish_def)

section \<open>The registry\<close>
























end
